theory Spec2Isabelle
  imports Complex_Main
begin

section \<open>Values of the JavaScript runtime\<close>

text \<open>
  The component \<open>MobileCapture\<close> is a React function component. Its numbers are IEEE doubles;
  a number is modelled by its exact value, a \<^typ>\<open>real\<close> (no NaN, no infinities), with
  \<open>null\<close>/\<open>undefined\<close> as \<open>None\<close> of an option type where the source can see them.
  Comparisons, \<open>Math.abs\<close>, \<open>Math.min\<close>, \<open>Math.max\<close> and \<open>toFixed\<close> are exact on the
  values; the subtraction of \<open>handleOrient\<close> is rounded (\<open>minusDouble\<close> below); the
  trigonometry of \<open>distanceMeters\<close> is taken over the reals.
  A JavaScript string is a sequence of UTF-16 code units; it is modelled as the list of
  their numeric values, which is what the regular expression of \<open>formatFilename\<close> (no
  \<open>u\<close> flag) and \<open>padStart\<close> work on.
\<close>

type_synonym jsstring = "nat list"

definition units :: "string \<Rightarrow> jsstring" where
  "units s = map of_char s"

text \<open>
  What the browser supplies and the component only passes on: \<open>Number::toString\<close>, which
  \<open>toFixed\<close> falls back to for magnitudes of at least \<open>10^21\<close> (its shortest round-trip
  digits are a property of doubles and are not modelled), and \<open>navigator.userAgent\<close>.
\<close>

record runtime =
  numberToString :: "real \<Rightarrow> jsstring"
  userAgent :: jsstring

text \<open>\<open>ToNumber\<close> on a nullable number: \<open>null\<close> becomes \<open>0\<close> in arithmetic.\<close>

fun toNumber :: "real option \<Rightarrow> real" where
  "toNumber None = 0"
| "toNumber (Some x) = x"

text \<open>
  The subtraction of two doubles is the exact difference rounded to the nearest double,
  ties to the even significand. A double has 53 significant bits: in the binade
  \<open>2^k \<le> |x| < 2^(k+1)\<close> the doubles are the multiples of \<open>2^(k-52)\<close>, and below
  \<open>2^-1022\<close> (the subnormal range) the multiples of \<open>2^-1074\<close>. Differences too large
  for a double do not arise from sensor angles and are not given an infinity here.
\<close>

definition roundHalfEven :: "real \<Rightarrow> int" where
  "roundHalfEven y =
     (let f = \<lfloor>y\<rfloor>; r = y - of_int f
      in if r < 1 / 2 then f else if 1 / 2 < r then f + 1 else if even f then f else f + 1)"

definition roundDouble :: "real \<Rightarrow> real" where
  "roundDouble x =
     (if x = 0 then 0
      else let e = max \<lfloor>log 2 \<bar>x\<bar>\<rfloor> (- 1022) - 52
           in of_int (roundHalfEven (x / 2 powi e)) * 2 powi e)"

definition minusDouble :: "real \<Rightarrow> real \<Rightarrow> real" where
  "minusDouble x y = roundDouble (x - y)"

section \<open>formatFilename\<close>

text \<open>
  \<^verbatim>\<open>String(seq)\<close> for a non-negative integer: its decimal digits, most significant
  first, \<open>"0"\<close> for zero. Code unit 48 is \<open>"0"\<close>.
\<close>

fun decimal :: "nat \<Rightarrow> jsstring" where
  "decimal n = (if n < 10 then [48 + n] else decimal (n div 10) @ [48 + n mod 10])"

declare decimal.simps [simp del]

text \<open>\<^verbatim>\<open>s.padStart(n, c)\<close> for a filler \<open>c\<close> of one code unit.\<close>

definition padStart :: "nat \<Rightarrow> nat \<Rightarrow> jsstring \<Rightarrow> jsstring" where
  "padStart n c s = replicate (n - length s) c @ s"

text \<open>
  \<^verbatim>\<open>Number.prototype.toFixed(f)\<close> as ECMAScript defines it on the mathematical value
  \<open>x\<close>: the sign is split off; at \<open>10^21\<close> and above the result is \<open>ToString\<close> of the
  number; below, \<open>n\<close> is the integer nearest to \<open>x * 10^f\<close> (the larger one on a tie), and
  for \<open>f \<noteq> 0\<close> its digits are padded with zeros to \<open>f + 1\<close> places and the point is put
  before the last \<open>f\<close> (\<open>insertPoint\<close>). Code unit 45 is \<open>"-"\<close>, 46 is \<open>"."\<close>.
\<close>

definition insertPoint :: "nat \<Rightarrow> jsstring \<Rightarrow> jsstring" where
  "insertPoint f m =
     (let k = length m;
          m' = (if k \<le> f then replicate (f + 1 - k) 48 @ m else m);
          k' = (if k \<le> f then f + 1 else k)
      in take (k' - f) m' @ [46] @ drop (k' - f) m')"

definition toFixed :: "runtime \<Rightarrow> nat \<Rightarrow> real \<Rightarrow> jsstring" where
  "toFixed rt f x0 =
     (let s = (if x0 < 0 then [45] else []);
          x = (if x0 < 0 then - x0 else x0)
      in if x \<ge> 10 ^ 21 then s @ numberToString rt x
         else
           let n = nat \<lfloor>x * 10 ^ f + 1 / 2\<rfloor>;
               m = decimal n
           in if f \<noteq> 0 then s @ insertPoint f m else s @ m)"

text \<open>
  The character class \<^verbatim>\<open>[a-zA-Z0-9_-]\<close>, and the global replacement of every code unit
  outside it by \<open>"_"\<close> (code unit 95).
\<close>

definition in_class :: "nat \<Rightarrow> bool" where
  "in_class c \<longleftrightarrow>
     (97 \<le> c \<and> c \<le> 122) \<or> (65 \<le> c \<and> c \<le> 90) \<or> (48 \<le> c \<and> c \<le> 57) \<or> c = 95 \<or> c = 45"

definition safeSite :: "jsstring \<Rightarrow> jsstring" where
  "safeSite siteName = map (\<lambda>c. if in_class c then c else 95) siteName"

definition formatFilename :: "runtime \<Rightarrow> jsstring \<Rightarrow> jsstring \<Rightarrow> nat \<Rightarrow> real \<Rightarrow> real \<Rightarrow> jsstring" where
  "formatFilename rt siteName date seq lat lng =
     safeSite siteName @ [95] @ date @ [95] @ padStart 3 48 (decimal seq) @ [95]
       @ toFixed rt 6 lat @ [95] @ toFixed rt 6 lng @ units ''.jpg''"

section \<open>distanceMeters\<close>

record coordinate =
  latitude :: real
  longitude :: real

definition toRad :: "real \<Rightarrow> real" where
  "toRad x = (x * pi) / 180"

definition distanceMeters :: "coordinate option \<Rightarrow> coordinate option \<Rightarrow> real" where
  "distanceMeters a b =
     (case (a, b) of
        (Some a, Some b) \<Rightarrow>
          (let R = 6371000;
               dLat = toRad (latitude b - latitude a);
               dLon = toRad (longitude b - longitude a);
               lat1 = toRad (latitude a);
               lat2 = toRad (latitude b);
               h = (sin (dLat / 2)) ^ 2 + cos lat1 * cos lat2 * (sin (dLon / 2)) ^ 2
           in 2 * R * arcsin (sqrt h))
      | _ \<Rightarrow> 0)"

section \<open>The state of MobileCapture\<close>

text \<open>
  The \<open>useState\<close> cells of the component, with their initial values. \<open>date\<close> starts as
  the current day, which the browser supplies. The last four fields are not React
  state. \<open>inflight\<close> counts the calls of \<open>captureAndUpload\<close> that are suspended at
  \<^verbatim>\<open>await fetch\<close> of the photo upload, whose continuations will still run. The
  \<open>listener\<close> fields are the values of \<open>started\<close>, \<open>angleBaseline\<close> and \<open>startCoords\<close> that
  the sensor listeners closed over when the effect last registered them: the listeners
  read these, not the cells, until the effect runs again.
\<close>

datatype zoom_mode = Half | One

record controller =
  siteName :: jsstring
  date :: jsstring
  coords :: "coordinate option"
  headingRef :: "real option"
  pitchRef :: "real option"
  zoom :: real
  mode :: zoom_mode
  seq :: nat
  started :: bool
  startCoords :: "coordinate option"
  distance :: real
  batteryLow :: bool
  storageOk :: bool
  angleBaseline :: "real option"
  angleWarning :: bool
  capturing :: bool
  inflight :: nat
  listenerStarted :: bool
  listenerAngleBaseline :: "real option"
  listenerStartCoords :: "coordinate option"

definition initial :: "jsstring \<Rightarrow> controller" where
  "initial today =
     \<lparr>siteName = [], date = today, coords = None, headingRef = None, pitchRef = None,
      zoom = 1, mode = One, seq = 0, started = False, startCoords = None, distance = 0,
      batteryLow = False, storageOk = True, angleBaseline = None, angleWarning = False,
      capturing = False, inflight = 0, listenerStarted = False, listenerAngleBaseline = None,
      listenerStartCoords = None\<rparr>"

section \<open>What the component does to the outside\<close>

text \<open>
  The alerts are named by their meaning (the source's texts are Turkish). The body of
  \<^verbatim>\<open>POST /api/sessions\<close> leaves out \<open>battery_level\<close>, which is always \<open>undefined\<close> and
  dropped by \<open>JSON.stringify\<close>. The form of \<^verbatim>\<open>POST /api/photos\<close> keeps numbers as numbers
  where the source sends \<open>String\<close> of them, and keeps an \<open>undefined\<close> session id as
  \<open>None\<close> where \<open>FormData\<close> sends the text \<open>undefined\<close>.
\<close>

type_synonym blob = "nat list"

datatype alert = InsufficientStorage | SiteAndLocationRequired | CameraFailed jsstring

record session_request =
  req_site_name :: jsstring
  req_date :: jsstring
  req_start_lat :: real
  req_start_lng :: real
  req_device :: jsstring

record photo_form =
  form_session_id :: "jsstring option"
  form_seq :: nat
  form_lat :: real
  form_lng :: real
  form_tilt_deg :: "real option"
  form_heading_deg :: "real option"
  form_zoom :: real
  form_filename :: jsstring
  form_file :: "blob \<times> jsstring"

datatype effect =
    Alert alert
  | Confirm
  | GetUserMedia
  | PostSessions session_request
  | PostPhotos photo_form
  | StopTracks

text \<open>
  What the outside answers. The camera either fails somewhere in the \<open>try\<close> block of
  \<open>startCamera\<close> or is ready, with the zoom range of its track when it has one. The
  session request either fails (\<open>fetch\<close> rejects, or the body is not a JSON object) or
  answers with a \<open>session_id\<close>, absent or a string. The upload either rejects or
  resolves with some HTTP status, which the component never reads.
\<close>

datatype camera = CameraError jsstring | CameraReady "(real \<times> real) option"

datatype session_response = SessionFailed | SessionAnswer "jsstring option"

datatype upload_outcome = UploadRejected | UploadResponded nat

text \<open>An \<open>async\<close> call either throws (its promise rejects) or returns.\<close>

datatype 'a outcome = Threw | Returned 'a

section \<open>Sensor callbacks\<close>

text \<open>
  The effect of the component registers the position watch and the orientation listener,
  and runs again after a render in which \<open>started\<close>, \<open>angleBaseline\<close> or \<open>startCoords\<close>
  has changed. Each listener closes over the values of the render that registered it:
  \<open>registerListeners\<close> is the effect running, and between a change of one of the three
  cells and the next run the listeners still see the old values.
\<close>

definition registerListeners :: "controller \<Rightarrow> controller" where
  "registerListeners s =
     s\<lparr>listenerStarted := started s, listenerAngleBaseline := angleBaseline s,
       listenerStartCoords := startCoords s\<rparr>"

definition onPosition :: "controller \<Rightarrow> real \<Rightarrow> real \<Rightarrow> controller" where
  "onPosition s lat lng =
     (let c = \<lparr>latitude = lat, longitude = lng\<rparr>
      in s\<lparr>coords := Some c,
           startCoords := (if listenerStartCoords s = None then Some c else startCoords s),
           distance := (if listenerStartCoords s \<noteq> None
                        then distanceMeters (listenerStartCoords s) (Some c)
                        else distance s)\<rparr>)"

definition onBatteryLevel :: "controller \<Rightarrow> real \<Rightarrow> controller" where
  "onBatteryLevel s level = s\<lparr>batteryLow := (level \<le> 0.15)\<rparr>"

text \<open>\<^verbatim>\<open>quota && usage\<close> holds when both are defined and not zero.\<close>

definition onStorageEstimate :: "controller \<Rightarrow> int option \<Rightarrow> int option \<Rightarrow> controller" where
  "onStorageEstimate s quota usage =
     (case (quota, usage) of
        (Some q, Some u) \<Rightarrow>
          (if q \<noteq> 0 \<and> u \<noteq> 0 then s\<lparr>storageOk := (q - u > 100 * 1024 * 1024)\<rparr> else s)
      | _ \<Rightarrow> s)"

text \<open>
  \<open>handleOrient\<close>: \<open>e.alpha\<close> and \<open>e.beta\<close> are \<open>null\<close> when the device has no sensor.
  Both tests read \<open>angleBaseline\<close> and \<open>started\<close> of the closure, so the event that sets
  the baseline does not compute a warning, and every sample that arrives before the
  effect runs again sets the baseline anew. \<open>setAngleBaseline(null)\<close> unsets the baseline.
  \<^verbatim>\<open>pitch - angleBaseline\<close> is a subtraction of doubles, with a \<open>null\<close> pitch as \<open>0\<close>.
\<close>

definition handleOrient :: "controller \<Rightarrow> real option \<Rightarrow> real option \<Rightarrow> controller" where
  "handleOrient s heading pitch =
     (let s1 = s\<lparr>headingRef := heading, pitchRef := pitch\<rparr>;
          s2 = (if listenerAngleBaseline s = None \<and> listenerStarted s
                then s1\<lparr>angleBaseline := pitch\<rparr> else s1)
      in case listenerAngleBaseline s of
           None \<Rightarrow> s2
         | Some b \<Rightarrow> s2\<lparr>angleWarning := (\<bar>minusDouble (toNumber pitch) b\<bar> > 5)\<rparr>)"

section \<open>Starting, capturing, stopping\<close>

definition startCamera :: "controller \<Rightarrow> camera \<Rightarrow> controller \<times> effect list" where
  "startCamera s cam =
     (case cam of
        CameraError msg \<Rightarrow> (s, [GetUserMedia, Alert (CameraFailed msg)])
      | CameraReady None \<Rightarrow> (s, [GetUserMedia])
      | CameraReady (Some (zmin, zmax)) \<Rightarrow>
          (let desired = (if mode s = Half then zmin else 1);
               to = min zmax (max zmin desired)
           in (s\<lparr>zoom := to\<rparr>, [GetUserMedia])))"

definition createSession ::
  "runtime \<Rightarrow> controller \<Rightarrow> session_response \<Rightarrow> jsstring option outcome \<times> effect list" where
  "createSession rt s resp =
     (case (siteName s, coords s) of
        ([], _) \<Rightarrow> (Returned None, [Alert SiteAndLocationRequired])
      | (_, None) \<Rightarrow> (Returned None, [Alert SiteAndLocationRequired])
      | (name, Some c) \<Rightarrow>
          (let req = \<lparr>req_site_name = name, req_date = date s, req_start_lat = latitude c,
                      req_start_lng = longitude c, req_device = userAgent rt\<rparr>
           in case resp of
                SessionFailed \<Rightarrow> (Threw, [PostSessions req])
              | SessionAnswer sid \<Rightarrow> (Returned sid, [PostSessions req])))"

text \<open>
  \<open>captureAndUpload\<close> up to \<^verbatim>\<open>await fetch\<close> of the upload. Every cell it reads
  (\<open>siteName\<close>, \<open>date\<close>, \<open>seq\<close>, \<open>coords\<close>, \<open>pitchRef\<close>, \<open>headingRef\<close>, \<open>zoom\<close>) is a
  constant of the render whose button was pressed, so the request it sends is fixed by
  the state at the press, the session id and the encoded frame, whatever happens during
  its earlier awaits. It returns whether an upload is now in flight; with no coordinate,
  \<^verbatim>\<open>current.latitude\<close> throws. \<open>captureAndUpload_settled\<close> is the rest of the function:
  \<^verbatim>\<open>setSeq((s) => s + 1)\<close> runs on the state of that later moment, and only when the
  awaited \<open>fetch\<close> did not reject.
\<close>

definition captureAndUpload ::
  "runtime \<Rightarrow> controller \<Rightarrow> jsstring option \<Rightarrow> bool \<Rightarrow> blob \<Rightarrow> bool outcome \<times> effect list" where
  "captureAndUpload rt s sessionId videoMounted frame =
     (if \<not> videoMounted then (Returned False, [])
      else case coords s of
             None \<Rightarrow> (Threw, [])
           | Some current \<Rightarrow>
               (let filename = formatFilename rt (siteName s) (date s) (seq s + 1)
                                 (latitude current) (longitude current);
                    form = \<lparr>form_session_id = sessionId, form_seq = seq s + 1,
                            form_lat = latitude current, form_lng = longitude current,
                            form_tilt_deg = pitchRef s, form_heading_deg = headingRef s,
                            form_zoom = zoom s, form_filename = filename,
                            form_file = (frame, filename)\<rparr>
                in (Returned True, [PostPhotos form])))"

definition captureAndUpload_settled :: "controller \<Rightarrow> upload_outcome \<Rightarrow> controller" where
  "captureAndUpload_settled s out =
     (case out of
        UploadRejected \<Rightarrow> s\<lparr>inflight := inflight s - 1\<rparr>
      | UploadResponded status \<Rightarrow> s\<lparr>seq := seq s + 1, inflight := inflight s - 1\<rparr>)"

text \<open>
  The handler of the capture button:
  \<^verbatim>\<open>async () => { await captureAndUpload(await createSession()) }\<close>.
\<close>

definition onCapture ::
  "runtime \<Rightarrow> controller \<Rightarrow> session_response \<Rightarrow> bool \<Rightarrow> blob \<Rightarrow> controller \<times> effect list" where
  "onCapture rt s resp videoMounted frame =
     (case createSession rt s resp of
        (Threw, fx) \<Rightarrow> (s, fx)
      | (Returned sid, fx) \<Rightarrow>
          (case captureAndUpload rt s sid videoMounted frame of
             (Returned True, fx') \<Rightarrow> (s\<lparr>inflight := inflight s + 1\<rparr>, fx @ fx')
           | (_, fx') \<Rightarrow> (s, fx @ fx')))"

text \<open>\<^verbatim>\<open>!sid\<close>: \<open>undefined\<close> and the empty string are falsy.\<close>

definition falsy :: "jsstring option \<Rightarrow> bool" where
  "falsy sid \<longleftrightarrow> sid = None \<or> sid = Some []"

definition onStart ::
  "runtime \<Rightarrow> controller \<Rightarrow> bool \<Rightarrow> camera \<Rightarrow> session_response \<Rightarrow> controller \<times> effect list" where
  "onStart rt s confirmed cam resp =
     (if \<not> storageOk s then (s, [Alert InsufficientStorage])
      else if batteryLow s \<and> \<not> confirmed then (s, [Confirm])
      else
        let asked = (if batteryLow s then [Confirm] else []);
            (s1, fx1) = startCamera s cam;
            (created, fx2) = createSession rt s resp
        in case created of
             Threw \<Rightarrow> (s1, asked @ fx1 @ fx2)
           | Returned sid \<Rightarrow>
               (if falsy sid then (s1, asked @ fx1 @ fx2)
                else (s1\<lparr>started := True, capturing := True\<rparr>, asked @ fx1 @ fx2)))"

text \<open>\<open>StopTracks\<close> stands for stopping the tracks of the video's stream when it has one.\<close>

definition onStop :: "controller \<Rightarrow> controller \<times> effect list" where
  "onStop s = (s\<lparr>capturing := False, started := False\<rparr>, [StopTracks])"

section \<open>The event loop\<close>

text \<open>
  Everything runs on one thread, one event at a time. The start button is rendered while
  \<open>capturing\<close> is false, the capture and stop buttons while it is true, and the capture
  button is disabled while \<open>angleWarning\<close> is true: a press that the page does not
  offer reaches no handler, and a press that is offered is handled on the current cells
  (the page is taken to be rendered up to date when a button is pressed). An upload can
  only settle while one is in flight. \<open>Rerender\<close> is React running the effect again after a
  render, which may happen at any later moment; until then the sensor listeners keep the
  values they closed over.
\<close>

datatype event =
    Position real real
  | BatteryLevel real
  | StorageEstimate "int option" "int option"
  | Orient "real option" "real option"
  | SetSiteName jsstring
  | SetDate jsstring
  | SetMode zoom_mode
  | ClickStart bool camera session_response
  | ClickCapture session_response bool blob
  | UploadSettled upload_outcome
  | ClickStop
  | Rerender

fun step :: "runtime \<Rightarrow> controller \<Rightarrow> event \<Rightarrow> controller \<times> effect list" where
  "step rt s (Position lat lng) = (onPosition s lat lng, [])"
| "step rt s (BatteryLevel level) = (onBatteryLevel s level, [])"
| "step rt s (StorageEstimate quota usage) = (onStorageEstimate s quota usage, [])"
| "step rt s (Orient heading pitch) = (handleOrient s heading pitch, [])"
| "step rt s (SetSiteName v) = (s\<lparr>siteName := v\<rparr>, [])"
| "step rt s (SetDate v) = (s\<lparr>date := v\<rparr>, [])"
| "step rt s (SetMode v) = (s\<lparr>mode := v\<rparr>, [])"
| "step rt s (ClickStart confirmed cam resp) =
     (if capturing s then (s, []) else onStart rt s confirmed cam resp)"
| "step rt s (ClickCapture resp videoMounted frame) =
     (if capturing s \<and> \<not> angleWarning s then onCapture rt s resp videoMounted frame else (s, []))"
| "step rt s (UploadSettled out) =
     (if inflight s = 0 then (s, []) else (captureAndUpload_settled s out, []))"
| "step rt s ClickStop = (if capturing s then onStop s else (s, []))"
| "step rt s Rerender = (registerListeners s, [])"

fun run :: "runtime \<Rightarrow> controller \<Rightarrow> event list \<Rightarrow> controller \<times> effect list" where
  "run rt s [] = (s, [])"
| "run rt s (e # es) =
     (let (s1, fx1) = step rt s e;
          (s2, fx2) = run rt s1 es
      in (s2, fx1 @ fx2))"

section \<open>Reading the effects of a run\<close>

fun session_requests :: "effect list \<Rightarrow> session_request list" where
  "session_requests [] = []"
| "session_requests (PostSessions r # fx) = r # session_requests fx"
| "session_requests (_ # fx) = session_requests fx"

fun uploads :: "effect list \<Rightarrow> photo_form list" where
  "uploads [] = []"
| "uploads (PostPhotos f # fx) = f # uploads fx"
| "uploads (_ # fx) = uploads fx"

section \<open>The filename format in the words of the specification\<close>

text \<open>
  \<open>zero_pad3\<close>: a sequence number padded with zeros to three digits, wider numbers as they
  are. \<open>fixed6\<close>: a number with exactly six fractional digits: the sign, the digits of
  the whole part, the point, and the six lowest digits of the number of millionths
  nearest to its magnitude.
\<close>

definition zero_pad3 :: "nat \<Rightarrow> jsstring" where
  "zero_pad3 n =
     (if n < 10 then [48, 48] @ decimal n else if n < 100 then [48] @ decimal n else decimal n)"

definition six_digits :: "nat \<Rightarrow> jsstring" where
  "six_digits n =
     [48 + n div 100000 mod 10, 48 + n div 10000 mod 10, 48 + n div 1000 mod 10,
      48 + n div 100 mod 10, 48 + n div 10 mod 10, 48 + n mod 10]"

definition nearest_millionths :: "real \<Rightarrow> nat" where
  "nearest_millionths x = nat \<lfloor>\<bar>x\<bar> * 10 ^ 6 + 1 / 2\<rfloor>"

definition fixed6 :: "real \<Rightarrow> jsstring" where
  "fixed6 x =
     (if x < 0 then [45] else []) @ decimal (nearest_millionths x div 10 ^ 6) @ [46]
       @ six_digits (nearest_millionths x)"

text \<open>The \<open>k\<close> lowest decimal digits of \<open>n\<close>, used to relate the two renderings.\<close>

fun low_digits :: "nat \<Rightarrow> nat \<Rightarrow> jsstring" where
  "low_digits 0 n = []"
| "low_digits (Suc k) n = low_digits k (n div 10) @ [48 + n mod 10]"

section \<open>A sample run\<close>

text \<open>
  A browser whose \<open>Number::toString\<close> is never reached, and an operator who names the
  site, gets a position fix and starts a session that the backend answers with \<open>s1\<close>.
\<close>

definition demo_runtime :: runtime where
  "demo_runtime = \<lparr>numberToString = (\<lambda>x. []), userAgent = units ''phone''\<rparr>"

definition demo_start :: "event list" where
  "demo_start =
     [SetSiteName (units ''Trench''), Position 41 29,
      ClickStart False (CameraReady None) (SessionAnswer (Some (units ''s1'')))]"

definition demo_initial :: controller where
  "demo_initial = initial (units ''2024-05-01'')"

text \<open>
  Two orientation samples, 10 and 17 degrees, each handled after the effect has run
  again; the same two samples with no run of the effect between them; a stop and a second
  start after the first sample; and the doubles nearest to 0.7 and 5.7 as samples, whose
  exact difference is \<open>5 + 2^-52\<close>.
\<close>

definition demo_tilted :: "event list" where
  "demo_tilted =
     demo_start @ [Rerender, Orient None (Some 10), Rerender, Orient None (Some 17)]"

definition demo_burst :: "event list" where
  "demo_burst = demo_start @ [Rerender, Orient None (Some 10), Orient None (Some 17)]"

definition demo_restart :: "event list" where
  "demo_restart =
     demo_start @
     [Rerender, Orient None (Some 10), Rerender, ClickStop, Rerender,
      ClickStart False (CameraReady None) (SessionAnswer (Some (units ''s2''))), Rerender]"

definition double_0_7 :: real where
  "double_0_7 = 3152519739159347 / 2 ^ 52"

definition double_5_7 :: real where
  "double_5_7 = 6417629469002957 / 2 ^ 50"

definition demo_rounded :: "event list" where
  "demo_rounded =
     demo_start
     @ [Rerender, Orient None (Some double_0_7), Rerender, Orient None (Some double_5_7)]"

definition demo_capture :: event where
  "demo_capture = ClickCapture (SessionAnswer (Some (units ''s2''))) True [255, 216]"

section \<open>The invariant of the angle warning\<close>



section \<open>Properties of distanceMeters\<close>

lemma sin_half_sq_swap: "(sin (toRad (x - y) / 2))\<^sup>2 = (sin (toRad (y - x) / 2))\<^sup>2"
proof -
  have "toRad (x - y) / 2 = - (toRad (y - x) / 2)"
    by (simp add: toRad_def field_simps)
  then have "sin (toRad (x - y) / 2) = - sin (toRad (y - x) / 2)"
    by (simp only: sin_minus)
  then show ?thesis by simp
qed

lemma distanceMeters_commute: "distanceMeters a b = distanceMeters b a"
proof (cases a)
  case None
  then show ?thesis by (cases b) (simp_all add: distanceMeters_def)
next
  case (Some p)
  show ?thesis
  proof (cases b)
    case None
    with Some show ?thesis by (simp add: distanceMeters_def)
  next
    case (Some q)
    with \<open>a = Some p\<close> show ?thesis
      by (simp add: distanceMeters_def Let_def
          sin_half_sq_swap [of "latitude p" "latitude q"]
          sin_half_sq_swap [of "longitude p" "longitude q"] mult.commute)
  qed
qed

lemma distanceMeters_self: "distanceMeters a a = 0"
  by (cases a) (simp_all add: distanceMeters_def Let_def toRad_def)

text \<open>
  C8. The haversine distance is symmetric, \<open>distanceMeters(a, b) = distanceMeters(b, a)\<close>,
  and the distance from a coordinate to itself is \<open>0\<close>; both also hold when a
  coordinate is still \<open>null\<close>, where the function returns \<open>0\<close>.
\<close>

theorem distanceMeters_symmetric_zero:
  "distanceMeters a b = distanceMeters b a \<and> distanceMeters a a = 0"
  by (rule conjI, rule distanceMeters_commute, rule distanceMeters_self)

section \<open>Properties of formatFilename\<close>

lemma length_low_digits: "length (low_digits k n) = k"
  by (induction k arbitrary: n) auto

lemma low_digits_0: "low_digits k 0 = replicate k 48"
  by (induction k) (auto simp: replicate_append_same)

lemma decimal_small: "n < 10 \<Longrightarrow> decimal n = [48 + n]"
  by (simp add: decimal.simps)

lemma decimal_big: "10 \<le> n \<Longrightarrow> decimal n = decimal (n div 10) @ [48 + n mod 10]"
  by (subst decimal.simps) simp

lemma length_decimal_ge1: "Suc 0 \<le> length (decimal n)"
  by (subst decimal.simps) simp

lemma decimal_below:
  "n < 10 ^ k \<Longrightarrow> 0 < k \<Longrightarrow>
     length (decimal n) \<le> k \<and> replicate (k - length (decimal n)) 48 @ decimal n = low_digits k n"
proof (induction k arbitrary: n)
  case 0
  then show ?case by simp
next
  case (Suc k)
  show ?case
  proof (cases "n < 10")
    case True
    then show ?thesis
      by (simp add: decimal_small low_digits_0)
  next
    case False
    then have big: "10 \<le> n" by simp
    have "k \<noteq> 0" using Suc.prems big by (cases k) auto
    moreover have "n div 10 < 10 ^ k"
      using Suc.prems by (simp add: less_mult_imp_div_less mult.commute)
    ultimately have ih: "length (decimal (n div 10)) \<le> k \<and>
        replicate (k - length (decimal (n div 10))) 48 @ decimal (n div 10) = low_digits k (n div 10)"
      using Suc.IH [of "n div 10"] by simp
    then show ?thesis
      by (simp add: decimal_big [OF big] Suc_diff_le)
  qed
qed

lemma decimal_above: "10 ^ k \<le> n \<Longrightarrow> decimal n = decimal (n div 10 ^ k) @ low_digits k n"
proof (induction k arbitrary: n)
  case 0
  then show ?case by simp
next
  case (Suc k)
  have big: "10 \<le> n"
  proof -
    have "(1::nat) \<le> 10 ^ k" by simp
    then have "(10::nat) \<le> 10 * 10 ^ k" by linarith
    moreover have "10 * 10 ^ k \<le> n" using Suc.prems by simp
    ultimately show ?thesis by linarith
  qed
  have "10 ^ k \<le> n div 10"
    using Suc.prems by (simp add: less_eq_div_iff_mult_less_eq mult.commute)
  then have "decimal (n div 10) = decimal (n div 10 div 10 ^ k) @ low_digits k (n div 10)"
    by (rule Suc.IH)
  then show ?case
    by (simp add: decimal_big [OF big] div_mult2_eq)
qed

lemma six_digits_low: "six_digits n = low_digits 6 n"
proof -
  have six: "(6::nat) = Suc (Suc (Suc (Suc (Suc (Suc 0)))))" by simp
  show ?thesis
    unfolding six_digits_def six by (simp add: div_mult2_eq [symmetric])
qed

lemma padStart_zero_pad3: "padStart 3 48 (decimal n) = zero_pad3 n"
proof -
  consider "n < 10" | "10 \<le> n" "n < 100" | "100 \<le> n" by linarith
  then show ?thesis
  proof cases
    case 1
    then show ?thesis
      by (simp add: padStart_def zero_pad3_def decimal_small numeral_2_eq_2)
  next
    case 2
    then have "n div 10 < 10" by simp
    with 2 show ?thesis
      by (simp add: padStart_def zero_pad3_def decimal_big decimal_small)
  next
    case 3
    have "decimal n = decimal (n div 10 ^ 2) @ low_digits 2 n"
      using 3 by (intro decimal_above) simp
    then have "length (decimal n) = length (decimal (n div 10 ^ 2)) + 2"
      by (simp add: length_low_digits)
    then have "3 \<le> length (decimal n)"
      using length_decimal_ge1 [of "n div 10 ^ 2"] by linarith
    with 3 show ?thesis by (simp add: padStart_def zero_pad3_def)
  qed
qed

lemma insertPoint_decimal:
  "insertPoint 6 (decimal n) = decimal (n div 10 ^ 6) @ [46] @ six_digits n"
proof (cases "n < 10 ^ 6")
  case True
  then have d: "length (decimal n) \<le> 6"
    and r: "replicate (6 - length (decimal n)) 48 @ decimal n = low_digits 6 n"
    using decimal_below [of n 6] by simp_all
  have "replicate (7 - length (decimal n)) 48 = 48 # replicate (6 - length (decimal n)) (48::nat)"
    using d by (simp add: Suc_diff_le flip: replicate_Suc)
  with True d r show ?thesis
    by (simp add: insertPoint_def Let_def six_digits_low decimal_small)
next
  case False
  then have ge: "10 ^ 6 \<le> n" by simp
  have split: "decimal n = decimal (n div 10 ^ 6) @ low_digits 6 n"
    using ge by (rule decimal_above)
  then have len: "length (decimal n) = length (decimal (n div 10 ^ 6)) + 6"
    by (simp add: length_low_digits)
  then have nle: "\<not> length (decimal n) \<le> 6"
    using length_decimal_ge1 [of "n div 10 ^ 6"] by linarith
  have "take (length (decimal n) - 6) (decimal n) = decimal (n div 10 ^ 6)"
    by (subst (2) split) (simp add: len)
  moreover have "drop (length (decimal n) - 6) (decimal n) = low_digits 6 n"
    by (subst (2) split) (simp add: len)
  ultimately show ?thesis
    using nle by (simp add: insertPoint_def Let_def six_digits_low)
qed

lemma toFixed_fixed6:
  assumes "\<bar>x\<bar> < 10 ^ 21"
  shows "toFixed rt 6 x = fixed6 x"
proof (cases "x < 0")
  case True
  with assms have "\<not> 10 ^ 21 \<le> - x" by simp
  with True show ?thesis
    by (simp add: toFixed_def fixed6_def Let_def insertPoint_decimal nearest_millionths_def)
next
  case False
  with assms have "\<not> 10 ^ 21 \<le> x" by simp
  with False show ?thesis
    by (simp add: toFixed_def fixed6_def Let_def insertPoint_decimal nearest_millionths_def)
qed

lemma safeSite_nth:
  "i < length site \<Longrightarrow> safeSite site ! i = (if in_class (site ! i) then site ! i else 95)"
  by (simp add: safeSite_def)

lemma formatFilename_pieces:
  assumes "\<bar>lat\<bar> < 10 ^ 21" and "\<bar>lng\<bar> < 10 ^ 21"
  shows "formatFilename rt site day n lat lng =
           safeSite site @ [95] @ day @ [95] @ zero_pad3 n @ [95] @ fixed6 lat @ [95]
             @ fixed6 lng @ units ''.jpg''"
  using assms by (simp add: formatFilename_def padStart_zero_pad3 toFixed_fixed6)

lemma fixed6_lat: "fixed6 41.015137 = units ''41.015137''"
proof -
  have "nearest_millionths 41.015137 = 41015137"
    by (simp add: nearest_millionths_def)
  moreover have "decimal 41 = [52, 49]"
    by (simp add: decimal.simps)
  ultimately show ?thesis
    by (simp add: fixed6_def six_digits_def units_def)
qed

lemma fixed6_lng: "fixed6 28.979530 = units ''28.979530''"
proof -
  have "nearest_millionths 28.979530 = 28979530"
    by (simp add: nearest_millionths_def)
  moreover have "decimal 28 = [50, 56]"
    by (simp add: decimal.simps)
  ultimately show ?thesis
    by (simp add: fixed6_def six_digits_def units_def)
qed

lemma formatFilename_scenario:
  "formatFilename rt (units ''Trench Alpha!'') (units ''2024-05-01'') 1 41.015137 28.979530
     = units ''Trench_Alpha__2024-05-01_001_41.015137_28.979530.jpg''"
proof -
  have site: "safeSite (units ''Trench Alpha!'') = units ''Trench_Alpha_''"
    by (simp add: safeSite_def in_class_def units_def)
  have number: "zero_pad3 1 = units ''001''"
    by (simp add: zero_pad3_def decimal.simps units_def)
  have "formatFilename rt (units ''Trench Alpha!'') (units ''2024-05-01'') 1 41.015137 28.979530
          = safeSite (units ''Trench Alpha!'') @ [95] @ units ''2024-05-01'' @ [95] @ zero_pad3 1
              @ [95] @ fixed6 41.015137 @ [95] @ fixed6 28.979530 @ units ''.jpg''"
    by (rule formatFilename_pieces) simp_all
  also have "\<dots> = units ''Trench_Alpha__2024-05-01_001_41.015137_28.979530.jpg''"
    unfolding site number fixed6_lat fixed6_lng by (simp add: units_def)
  finally show ?thesis .
qed


text \<open>
  C7. For a site name, a date, a sequence number and two coordinates (finite, of magnitude
  below \<open>10^21\<close>, where \<open>toFixed\<close> keeps the fixed notation), \<open>formatFilename\<close> is the
  sanitised site name, \<open>_\<close>, the date, \<open>_\<close>, the sequence number padded with zeros to
  three digits, \<open>_\<close>, the latitude with exactly six fractional digits, \<open>_\<close>, the longitude
  with exactly six fractional digits, and \<open>.jpg\<close>. The sanitised name has the length of
  the site name, keeps each code unit of \<open>[A-Za-z0-9_-]\<close> and has \<open>_\<close> at every other
  position, so consecutive replacements are not collapsed. The scenario of the
  specification gives \<open>Trench_Alpha__2024-05-01_001_41.015137_28.979530.jpg\<close>. The result
  is a function of the arguments alone, so equal inputs give equal output.
\<close>

theorem formatFilename_format:
  assumes "\<bar>lat\<bar> < 10 ^ 21" and "\<bar>lng\<bar> < 10 ^ 21"
  shows "formatFilename rt site day n lat lng =
           safeSite site @ [95] @ day @ [95] @ zero_pad3 n @ [95] @ fixed6 lat @ [95]
             @ fixed6 lng @ units ''.jpg''
         \<and> length (safeSite site) = length site
         \<and> (\<forall>i < length site. safeSite site ! i = (if in_class (site ! i) then site ! i else 95))
         \<and> length (six_digits (nearest_millionths lat)) = 6
         \<and> length (six_digits (nearest_millionths lng)) = 6
         \<and> formatFilename rt (units ''Trench Alpha!'') (units ''2024-05-01'') 1 41.015137 28.979530
             = units ''Trench_Alpha__2024-05-01_001_41.015137_28.979530.jpg''"
proof (intro conjI)
  show "formatFilename rt site day n lat lng =
          safeSite site @ [95] @ day @ [95] @ zero_pad3 n @ [95] @ fixed6 lat @ [95]
            @ fixed6 lng @ units ''.jpg''"
    using assms by (rule formatFilename_pieces)
  show "length (safeSite site) = length site"
    by (simp add: safeSite_def)
  show "\<forall>i < length site. safeSite site ! i = (if in_class (site ! i) then site ! i else 95)"
    using safeSite_nth by blast
  show "length (six_digits (nearest_millionths lat)) = 6"
    and "length (six_digits (nearest_millionths lng)) = 6"
    by (simp_all add: six_digits_def)
  show "formatFilename rt (units ''Trench Alpha!'') (units ''2024-05-01'') 1 41.015137 28.979530
          = units ''Trench_Alpha__2024-05-01_001_41.015137_28.979530.jpg''"
    by (rule formatFilename_scenario)
qed

theorem formatFilename_format_witness:
  "formatFilename demo_runtime (units ''Pit 7/B'') (units ''2025-01-02'') 12 (- 0.5) 1234.0000007
     = units ''Pit_7_B_2025-01-02_012_-0.500000_1234.000001.jpg''"
proof -
  have small: "\<bar>- 0.5 :: real\<bar> < 10 ^ 21" "\<bar>1234.0000007 :: real\<bar> < 10 ^ 21"
    by simp_all
  have site: "safeSite (units ''Pit 7/B'') = units ''Pit_7_B''"
    by (simp add: safeSite_def in_class_def units_def)
  have number: "zero_pad3 12 = units ''012''"
    by (simp add: zero_pad3_def decimal.simps units_def)
  have lat: "fixed6 (- 0.5) = units ''-0.500000''"
  proof -
    have "nearest_millionths (- 0.5) = 500000"
      by (simp add: nearest_millionths_def)
    moreover have "decimal 0 = [48]"
      by (simp add: decimal.simps)
    ultimately show ?thesis
      by (simp add: fixed6_def six_digits_def units_def)
  qed
  have lng: "fixed6 1234.0000007 = units ''1234.000001''"
  proof -
    have "nearest_millionths 1234.0000007 = 1234000001"
      by (simp add: nearest_millionths_def)
    moreover have "decimal 1234 = [49, 50, 51, 52]"
      by (simp add: decimal.simps)
    ultimately show ?thesis
      by (simp add: fixed6_def six_digits_def units_def)
  qed
  have "formatFilename demo_runtime (units ''Pit 7/B'') (units ''2025-01-02'') 12 (- 0.5) 1234.0000007
          = safeSite (units ''Pit 7/B'') @ [95] @ units ''2025-01-02'' @ [95] @ zero_pad3 12
              @ [95] @ fixed6 (- 0.5) @ [95] @ fixed6 1234.0000007 @ units ''.jpg''"
    using formatFilename_format [OF small] by (rule conjunct1)
  also have "\<dots> = units ''Pit_7_B_2025-01-02_012_-0.500000_1234.000001.jpg''"
    unfolding site number lat lng by (simp add: units_def)
  finally show ?thesis .
qed


section \<open>Properties of the event loop\<close>

lemmas handler_defs = registerListeners_def onPosition_def onBatteryLevel_def
  onStorageEstimate_def handleOrient_def startCamera_def createSession_def
  captureAndUpload_def captureAndUpload_settled_def onCapture_def onStart_def onStop_def
  falsy_def Let_def

lemmas demo_defs = demo_runtime_def demo_initial_def demo_start_def demo_tilted_def
  demo_burst_def demo_restart_def demo_rounded_def demo_capture_def initial_def units_def

lemma run_snoc: "fst (run rt s (evs @ [e])) = fst (step rt (fst (run rt s evs)) e)"
  by (induction evs arbitrary: s) (simp_all add: split_def Let_def)

lemma startCamera_keeps:
  "angleBaseline (fst (startCamera s cam)) = angleBaseline s"
  "angleWarning (fst (startCamera s cam)) = angleWarning s"
  "pitchRef (fst (startCamera s cam)) = pitchRef s"
  "seq (fst (startCamera s cam)) = seq s"
  "started (fst (startCamera s cam)) = started s"
  "capturing (fst (startCamera s cam)) = capturing s"
  "listenerStarted (fst (startCamera s cam)) = listenerStarted s"
  "listenerAngleBaseline (fst (startCamera s cam)) = listenerAngleBaseline s"
  by (simp_all add: startCamera_def Let_def split: camera.splits option.splits prod.splits)

lemma onStart_keeps:
  "angleBaseline (fst (onStart rt s ans cam resp)) = angleBaseline s"
  "angleWarning (fst (onStart rt s ans cam resp)) = angleWarning s"
  "pitchRef (fst (onStart rt s ans cam resp)) = pitchRef s"
  "seq (fst (onStart rt s ans cam resp)) = seq s"
  "listenerStarted (fst (onStart rt s ans cam resp)) = listenerStarted s"
  "listenerAngleBaseline (fst (onStart rt s ans cam resp)) = listenerAngleBaseline s"
  by (simp_all add: onStart_def Let_def split_def startCamera_keeps split: outcome.splits)

lemma onCapture_keeps:
  "angleBaseline (fst (onCapture rt s resp vm frame)) = angleBaseline s"
  "angleWarning (fst (onCapture rt s resp vm frame)) = angleWarning s"
  "pitchRef (fst (onCapture rt s resp vm frame)) = pitchRef s"
  "seq (fst (onCapture rt s resp vm frame)) = seq s"
  "listenerStarted (fst (onCapture rt s resp vm frame)) = listenerStarted s"
  "listenerAngleBaseline (fst (onCapture rt s resp vm frame)) = listenerAngleBaseline s"
  by (simp_all add: onCapture_def split: prod.splits outcome.splits bool.splits)














lemma step_seq_cases:
  "seq (fst (step rt s e)) =
     (case e of
        UploadSettled (UploadResponded st) \<Rightarrow> if inflight s = 0 then seq s else seq s + 1
      | _ \<Rightarrow> seq s)"
  by (cases e)
     (simp_all add: onStart_keeps onCapture_keeps onPosition_def onBatteryLevel_def
        onStorageEstimate_def handleOrient_def captureAndUpload_settled_def onStop_def
        registerListeners_def Let_def
        split: option.splits upload_outcome.splits)

lemma step_seq_mono: "seq s \<le> seq (fst (step rt s e))"
  by (simp add: step_seq_cases split: event.splits upload_outcome.splits)

lemma run_seq_mono: "seq s \<le> seq (fst (run rt s evs))"
proof (induction evs arbitrary: s)
  case Nil
  then show ?case by simp
next
  case (Cons e evs)
  have "seq s \<le> seq (fst (step rt s e))" by (rule step_seq_mono)
  also have "\<dots> \<le> seq (fst (run rt (fst (step rt s e)) evs))" by (rule Cons.IH)
  finally show ?case by (simp add: split_def Let_def)
qed







text \<open>
  C5 does not hold of the code: \<open>onStop\<close> resets \<open>started\<close> and \<open>capturing\<close> but not
  \<open>angleBaseline\<close>. In the second session of the sample run (stopped and started again
  after a first sample of 10 degrees) the listener is registered with \<open>started\<close> true, yet
  the first orientation sample of that session, 40 degrees, does not set the baseline:
  it is still the 10 of the first session. Within one session the baseline can also be
  set twice, when two samples arrive before the effect has run again: 10, then 17.
\<close>

theorem baseline_not_renewed_by_restart:
  "started (fst (run demo_runtime demo_initial demo_restart))
   \<and> listenerStarted (fst (run demo_runtime demo_initial demo_restart))
   \<and> angleBaseline (fst (step demo_runtime (fst (run demo_runtime demo_initial demo_restart))
        (Orient None (Some 40)))) = Some 10
   \<and> angleBaseline (fst (run demo_runtime demo_initial demo_burst)) = Some 17"
  by (simp add: demo_defs handler_defs)

text \<open>
  C2, as stated, fails: in the started sample session a capture is triggered and its
  upload is sent, the upload request rejects, and \<open>seq\<close> is still 0.
\<close>

theorem rejected_upload_keeps_seq:
  "capturing (fst (run demo_runtime demo_initial demo_start))
   \<and> map form_seq (uploads (snd (run demo_runtime demo_initial
         (demo_start @ [demo_capture, UploadSettled UploadRejected])))) = [1]
   \<and> seq (fst (run demo_runtime demo_initial demo_start)) = 0
   \<and> seq (fst (run demo_runtime demo_initial
         (demo_start @ [demo_capture, UploadSettled UploadRejected]))) = 0"
  by (simp add: demo_defs handler_defs)

text \<open>
  C2, amended. \<open>seq\<close> starts at 0 and never decreases. The capture trigger itself leaves
  it unchanged; it increases by exactly 1 when the upload request of a capture resolves,
  whatever the HTTP status, stays unchanged when that request rejects, and no other
  event changes it.
\<close>

theorem seq_counts_resolved_uploads:
  "seq (initial today) = 0
   \<and> seq s \<le> seq (fst (run rt s evs))
   \<and> seq (fst (step rt s (ClickCapture resp vm frame))) = seq s
   \<and> (0 < inflight s \<longrightarrow> seq (fst (step rt s (UploadSettled (UploadResponded st)))) = seq s + 1)
   \<and> seq (fst (step rt s (UploadSettled UploadRejected))) = seq s
   \<and> ((\<forall>st. e \<noteq> UploadSettled (UploadResponded st)) \<longrightarrow> seq (fst (step rt s e)) = seq s)"
proof (intro conjI impI)
  show "seq (initial today) = 0"
    by (simp add: initial_def)
  show "seq s \<le> seq (fst (run rt s evs))"
    by (rule run_seq_mono)
  show "seq (fst (step rt s (ClickCapture resp vm frame))) = seq s"
    by (simp add: onCapture_keeps)
  show "seq (fst (step rt s (UploadSettled (UploadResponded st)))) = seq s + 1" if "0 < inflight s"
    using that by (simp add: captureAndUpload_settled_def)
  show "seq (fst (step rt s (UploadSettled UploadRejected))) = seq s"
    by (simp add: captureAndUpload_settled_def)
  show "seq (fst (step rt s e)) = seq s" if "\<forall>st. e \<noteq> UploadSettled (UploadResponded st)"
    using that by (simp add: step_seq_cases split: event.splits upload_outcome.splits)
qed

theorem seq_counts_resolved_uploads_witness:
  "0 < inflight (fst (run demo_runtime demo_initial (demo_start @ [demo_capture])))
   \<and> seq (fst (run demo_runtime demo_initial (demo_start @ [demo_capture]))) = 0
   \<and> seq (fst (step demo_runtime (fst (run demo_runtime demo_initial (demo_start @ [demo_capture])))
        (UploadSettled (UploadResponded 500)))) = 1
   \<and> seq (fst (step demo_runtime (fst (run demo_runtime demo_initial (demo_start @ [demo_capture])))
        ClickStop)) = 0"
proof -
  let ?s = "fst (run demo_runtime demo_initial (demo_start @ [demo_capture]))"
  have a: "0 < inflight ?s" and b: "seq ?s = 0"
    by (simp_all add: demo_defs handler_defs)
  have c: "\<forall>st. ClickStop \<noteq> UploadSettled (UploadResponded st)" by simp
  note t = seq_counts_resolved_uploads [of "units ''2024-05-01''" ?s demo_runtime "[]"
      "SessionAnswer None" True "[]" 500 ClickStop]
  have "seq (fst (step demo_runtime ?s (UploadSettled (UploadResponded 500)))) = seq ?s + 1"
    using t a by blast
  moreover have "seq (fst (step demo_runtime ?s ClickStop)) = seq ?s"
    using t c by blast
  ultimately show ?thesis
    using a b by simp
qed

text \<open>
  C6. \<open>onStart\<close> checks storage first, then the battery: with \<open>storageOk\<close> false it only
  raises the storage alert (no confirmation is asked, no camera is acquired, no request
  is sent) and leaves the state as it is; with storage ok, \<open>batteryLow\<close> true and the
  confirmation declined, it only asks the confirmation and stops before the camera.
\<close>

theorem onStart_preconditions:
  "(\<not> storageOk s \<longrightarrow> onStart rt s confirmed cam resp = (s, [Alert InsufficientStorage]))
   \<and> (storageOk s \<and> batteryLow s \<and> \<not> confirmed \<longrightarrow> onStart rt s confirmed cam resp = (s, [Confirm]))"
  by (simp add: onStart_def)

theorem onStart_preconditions_witness:
  "onStart demo_runtime (demo_initial\<lparr>storageOk := False, batteryLow := True\<rparr>) True (CameraReady None)
      (SessionAnswer (Some (units ''s1'')))
     = (demo_initial\<lparr>storageOk := False, batteryLow := True\<rparr>, [Alert InsufficientStorage])
   \<and> onStart demo_runtime (demo_initial\<lparr>batteryLow := True\<rparr>) False (CameraReady None)
      (SessionAnswer (Some (units ''s1'')))
     = (demo_initial\<lparr>batteryLow := True\<rparr>, [Confirm])"
proof -
  have "\<not> storageOk (demo_initial\<lparr>storageOk := False, batteryLow := True\<rparr>)"
    by simp
  moreover have "storageOk (demo_initial\<lparr>batteryLow := True\<rparr>)
      \<and> batteryLow (demo_initial\<lparr>batteryLow := True\<rparr>) \<and> \<not> False"
    by (simp add: demo_defs)
  ultimately show ?thesis
    using onStart_preconditions [of "demo_initial\<lparr>storageOk := False, batteryLow := True\<rparr>"
        demo_runtime True "CameraReady None" "SessionAnswer (Some (units ''s1''))"]
      onStart_preconditions [of "demo_initial\<lparr>batteryLow := True\<rparr>"
        demo_runtime False "CameraReady None" "SessionAnswer (Some (units ''s1''))"]
    by blast
qed

lemma createSession_refuses:
  "siteName s = [] \<or> coords s = None \<Longrightarrow>
     createSession rt s resp = (Returned None, [Alert SiteAndLocationRequired])"
  by (auto simp: createSession_def split: list.splits option.splits)

lemma session_requests_append:
  "session_requests (fx @ fx') = session_requests fx @ session_requests fx'"
  by (induction fx rule: session_requests.induct) simp_all

lemma startCamera_no_request: "session_requests (snd (startCamera s cam)) = []"
  by (simp add: startCamera_def Let_def split: camera.splits option.splits prod.splits)

text \<open>
  C10. With an empty site name or no coordinate yet, \<open>createSession\<close> sends no request,
  raises the alert and returns no session id; \<open>onStart\<close> then sends no session request
  and leaves \<open>started\<close> and \<open>capturing\<close> as they were, and the alert is raised whenever
  \<open>onStart\<close> passes its storage and battery checks.
\<close>

theorem createSession_needs_site_and_position:
  assumes "siteName s = [] \<or> coords s = None"
  shows "createSession rt s resp = (Returned None, [Alert SiteAndLocationRequired])
         \<and> session_requests (snd (onStart rt s confirmed cam resp)) = []
         \<and> started (fst (onStart rt s confirmed cam resp)) = started s
         \<and> capturing (fst (onStart rt s confirmed cam resp)) = capturing s
         \<and> (storageOk s \<and> (batteryLow s \<longrightarrow> confirmed) \<longrightarrow>
              Alert SiteAndLocationRequired \<in> set (snd (onStart rt s confirmed cam resp)))"
proof -
  have refuse: "createSession rt s resp = (Returned None, [Alert SiteAndLocationRequired])"
    using assms by (rule createSession_refuses)
  then show ?thesis
    by (simp add: onStart_def Let_def split_def falsy_def startCamera_keeps startCamera_no_request
        session_requests_append)
qed

theorem createSession_needs_site_and_position_witness:
  "siteName (onPosition demo_initial 41 29) = []
   \<and> onStart demo_runtime (onPosition demo_initial 41 29) False (CameraReady None)
        (SessionAnswer (Some (units ''s1'')))
      = (onPosition demo_initial 41 29, [GetUserMedia, Alert SiteAndLocationRequired])
   \<and> \<not> started (fst (onStart demo_runtime (onPosition demo_initial 41 29) False (CameraReady None)
        (SessionAnswer (Some (units ''s1'')))))"
proof -
  have empty: "siteName (onPosition demo_initial 41 29) = []"
    by (simp add: demo_defs onPosition_def Let_def)
  then have hyp: "siteName (onPosition demo_initial 41 29) = [] \<or> coords (onPosition demo_initial 41 29) = None"
    by simp
  have "started (fst (onStart demo_runtime (onPosition demo_initial 41 29) False (CameraReady None)
        (SessionAnswer (Some (units ''s1''))))) = started (onPosition demo_initial 41 29)"
    using createSession_needs_site_and_position [OF hyp] by blast
  then have "\<not> started (fst (onStart demo_runtime (onPosition demo_initial 41 29) False (CameraReady None)
        (SessionAnswer (Some (units ''s1'')))))"
    by (simp add: demo_defs onPosition_def Let_def)
  moreover have "onStart demo_runtime (onPosition demo_initial 41 29) False (CameraReady None)
        (SessionAnswer (Some (units ''s1'')))
      = (onPosition demo_initial 41 29, [GetUserMedia, Alert SiteAndLocationRequired])"
    by (simp add: demo_defs handler_defs)
  ultimately show ?thesis
    using empty by blast
qed

text \<open>
  C1 does not hold of the code: the handler of the capture button calls \<open>createSession\<close>
  again. In the sample session the start posts one session request (answered \<open>s1\<close>), the
  capture posts a second one (answered \<open>s2\<close>), and the photo is uploaded under \<open>s2\<close>; the
  id returned at the start is only tested and never stored.
\<close>

theorem capture_creates_another_session:
  "map req_site_name (session_requests (snd (run demo_runtime demo_initial demo_start))) = [units ''Trench'']
   \<and> map req_site_name (session_requests (snd (step demo_runtime
        (fst (run demo_runtime demo_initial demo_start)) demo_capture))) = [units ''Trench'']
   \<and> map form_session_id (uploads (snd (step demo_runtime
        (fst (run demo_runtime demo_initial demo_start)) demo_capture))) = [Some (units ''s2'')]"
  by (simp add: demo_defs handler_defs)

text \<open>
  C9 does not hold of the code: the number a capture uses is \<open>seq + 1\<close> with the \<open>seq\<close> of
  the render whose button was pressed, and \<open>seq\<close> only advances when an upload resolves.
  Two presses before the first upload resolves both upload with sequence number 1 (and
  so with the same filename), while the counter ends at 2.
\<close>

theorem rapid_captures_share_seq:
  "map form_seq (uploads (snd (run demo_runtime demo_initial
       (demo_start @ [demo_capture, demo_capture])))) = [1, 1]
   \<and> map form_filename (uploads (snd (run demo_runtime demo_initial
       (demo_start @ [demo_capture, demo_capture]))))
      = [formatFilename demo_runtime (units ''Trench'') (units ''2024-05-01'') 1 41 29,
         formatFilename demo_runtime (units ''Trench'') (units ''2024-05-01'') 1 41 29]
   \<and> inflight (fst (run demo_runtime demo_initial (demo_start @ [demo_capture, demo_capture]))) = 2
   \<and> seq (fst (run demo_runtime demo_initial
       (demo_start @ [demo_capture, demo_capture, UploadSettled (UploadResponded 200),
                      UploadSettled (UploadResponded 200)]))) = 2"
  by (simp add: demo_defs handler_defs)

end
